theory Spec2Isabelle
  imports Main
begin

section \<open>Python values produced by the serializers\<close>

text \<open>
  Every \<open>serialize\<close> method of \<open>src/models.py\<close> returns a dict literal whose keys are
  string constants and whose values are column values (integers, strings, booleans,
  \<open>None\<close>), an ISO string, or a list built by a comprehension. A dict is an association
  list in the order of the literal.
\<close>

datatype pyval =
    PNone
  | PBool bool
  | PInt int
  | PStr string
  | PList "pyval list"
  | PDict "(string \<times> pyval) list"

type_synonym pydict = "(string \<times> pyval) list"

text \<open>A nullable text column reads as a string or \<open>None\<close>; a nullable integer column likewise.\<close>

definition str_or_none :: "string option \<Rightarrow> pyval" where
  "str_or_none v = (case v of None \<Rightarrow> PNone | Some s \<Rightarrow> PStr s)"

definition int_or_none :: "int option \<Rightarrow> pyval" where
  "int_or_none v = (case v of None \<Rightarrow> PNone | Some i \<Rightarrow> PInt i)"

text \<open>Reading a list of integers back out of a value (\<open>None\<close> when it is anything else).\<close>

fun ints_of_vals :: "pyval list \<Rightarrow> int list option" where
  "ints_of_vals [] = Some []"
| "ints_of_vals (PInt i # vs) = (case ints_of_vals vs of None \<Rightarrow> None | Some is \<Rightarrow> Some (i # is))"
| "ints_of_vals (_ # vs) = None"

fun ints_of :: "pyval \<Rightarrow> int list option" where
  "ints_of (PList vs) = ints_of_vals vs"
| "ints_of _ = None"

fun is_dict :: "pyval \<Rightarrow> bool" where
  "is_dict (PDict _) = True"
| "is_dict _ = False"

section \<open>The mapped classes\<close>

text \<open>
  Each class is a record of its mapped columns (the table row), extended by its
  \<open>relationship\<close> attributes (the loaded object). A column declared \<open>nullable=True\<close>,
  or left at the default for a non-key column, is an option. Field names are the
  source's, prefixed by the class because the classes share names such as \<open>id\<close> and
  \<open>name\<close>. The type \<open>'dt\<close> stands for Python's \<open>datetime\<close>.

  The association objects also carry the back references \<open>user\<close>, \<open>planet\<close>,
  \<open>person\<close> and \<open>vehicle\<close>; no method of the module reads them, and they are left
  out of the records.
\<close>

record FavoritePlanet =
  FavoritePlanet_user_id :: int
  FavoritePlanet_planet_id :: int

record FavoritePerson =
  FavoritePerson_user_id :: int
  FavoritePerson_person_id :: int

record FavoriteVehicle =
  FavoriteVehicle_user_id :: int
  FavoriteVehicle_vehicle_id :: int

record 'dt User_row =
  User_id :: int
  User_email :: string
  User_password :: string
  User_first_name :: "string option"
  User_last_name :: "string option"
  User_subscription_date :: "'dt option"
  User_is_active :: bool

record 'dt User = "'dt User_row" +
  User_favorite_planets :: "FavoritePlanet list"
  User_favorite_people :: "FavoritePerson list"
  User_favorite_vehicles :: "FavoriteVehicle list"

record Planet_row =
  Planet_id :: int
  Planet_name :: string
  Planet_diameter :: "string option"
  Planet_rotation_period :: "string option"
  Planet_orbital_period :: "string option"
  Planet_gravity :: "string option"
  Planet_population :: "string option"
  Planet_climate :: "string option"
  Planet_terrain :: "string option"
  Planet_surface_water :: "string option"

record Person_row =
  Person_id :: int
  Person_name :: string
  Person_height :: "string option"
  Person_mass :: "string option"
  Person_hair_color :: "string option"
  Person_skin_color :: "string option"
  Person_eye_color :: "string option"
  Person_birth_year :: "string option"
  Person_gender :: "string option"
  Person_homeworld_id :: "int option"

record Planet = Planet_row +
  Planet_favorited_by :: "FavoritePlanet list"
  Planet_residents :: "Person_row list"

record Person = Person_row +
  Person_homeworld :: "Planet_row option"
  Person_favorited_by :: "FavoritePerson list"

record Vehicle_row =
  Vehicle_id :: int
  Vehicle_name :: string
  Vehicle_model :: string
  Vehicle_manufacturer :: string
  Vehicle_cost_in_credits :: "string option"
  Vehicle_length :: "string option"
  Vehicle_max_atmosphering_speed :: "string option"
  Vehicle_crew :: "string option"
  Vehicle_passengers :: "string option"
  Vehicle_cargo_capacity :: "string option"
  Vehicle_consumables :: "string option"
  Vehicle_vehicle_class :: "string option"

record Vehicle = Vehicle_row +
  Vehicle_favorited_by :: "FavoriteVehicle list"

section \<open>The serializers\<close>

text \<open>
  \<open>User.serialize\<close>. The expression
  \<^verbatim>\<open>self.subscription_date.isoformat() if self.subscription_date else None\<close>
  tests the truth value of the attribute: \<open>None\<close> is false and every \<open>datetime\<close> is
  true, so the method \<open>isoformat\<close> is only called on a \<open>datetime\<close>. The method belongs
  to Python's library and is the parameter \<open>isoformat\<close>.
\<close>

definition User_serialize :: "('dt \<Rightarrow> string) \<Rightarrow> 'dt User \<Rightarrow> pydict" where
  "User_serialize isoformat self =
    [(''id'', PInt (User_id self)),
     (''email'', PStr (User_email self)),
     (''first_name'', str_or_none (User_first_name self)),
     (''last_name'', str_or_none (User_last_name self)),
     (''subscription_date'',
        (case User_subscription_date self of
           Some d \<Rightarrow> PStr (isoformat d)
         | None \<Rightarrow> PNone)),
     (''is_active'', PBool (User_is_active self)),
     (''favorite_planet_ids'',
        PList (map (\<lambda>fav. PInt (FavoritePlanet_planet_id fav)) (User_favorite_planets self))),
     (''favorite_person_ids'',
        PList (map (\<lambda>fav. PInt (FavoritePerson_person_id fav)) (User_favorite_people self))),
     (''favorite_vehicle_ids'',
        PList (map (\<lambda>fav. PInt (FavoriteVehicle_vehicle_id fav)) (User_favorite_vehicles self)))]"

definition Planet_serialize :: "Planet \<Rightarrow> pydict" where
  "Planet_serialize self =
    [(''id'', PInt (Planet_id self)),
     (''name'', PStr (Planet_name self)),
     (''diameter'', str_or_none (Planet_diameter self)),
     (''rotation_period'', str_or_none (Planet_rotation_period self)),
     (''orbital_period'', str_or_none (Planet_orbital_period self)),
     (''gravity'', str_or_none (Planet_gravity self)),
     (''population'', str_or_none (Planet_population self)),
     (''climate'', str_or_none (Planet_climate self)),
     (''terrain'', str_or_none (Planet_terrain self)),
     (''surface_water'', str_or_none (Planet_surface_water self)),
     (''resident_ids'',
        PList (map (\<lambda>resident. PInt (Person_id resident)) (Planet_residents self)))]"

definition Person_serialize :: "Person \<Rightarrow> pydict" where
  "Person_serialize self =
    [(''id'', PInt (Person_id self)),
     (''name'', PStr (Person_name self)),
     (''height'', str_or_none (Person_height self)),
     (''mass'', str_or_none (Person_mass self)),
     (''hair_color'', str_or_none (Person_hair_color self)),
     (''skin_color'', str_or_none (Person_skin_color self)),
     (''eye_color'', str_or_none (Person_eye_color self)),
     (''birth_year'', str_or_none (Person_birth_year self)),
     (''gender'', str_or_none (Person_gender self)),
     (''homeworld_id'', int_or_none (Person_homeworld_id self))]"

definition Vehicle_serialize :: "Vehicle \<Rightarrow> pydict" where
  "Vehicle_serialize self =
    [(''id'', PInt (Vehicle_id self)),
     (''name'', PStr (Vehicle_name self)),
     (''model'', PStr (Vehicle_model self)),
     (''manufacturer'', PStr (Vehicle_manufacturer self)),
     (''cost_in_credits'', str_or_none (Vehicle_cost_in_credits self)),
     (''length'', str_or_none (Vehicle_length self)),
     (''max_atmosphering_speed'', str_or_none (Vehicle_max_atmosphering_speed self)),
     (''crew'', str_or_none (Vehicle_crew self)),
     (''passengers'', str_or_none (Vehicle_passengers self)),
     (''cargo_capacity'', str_or_none (Vehicle_cargo_capacity self)),
     (''consumables'', str_or_none (Vehicle_consumables self)),
     (''vehicle_class'', str_or_none (Vehicle_vehicle_class self))]"

definition FavoritePlanet_serialize :: "FavoritePlanet \<Rightarrow> pydict" where
  "FavoritePlanet_serialize self =
    [(''user_id'', PInt (FavoritePlanet_user_id self)),
     (''planet_id'', PInt (FavoritePlanet_planet_id self))]"

definition FavoritePerson_serialize :: "FavoritePerson \<Rightarrow> pydict" where
  "FavoritePerson_serialize self =
    [(''user_id'', PInt (FavoritePerson_user_id self)),
     (''person_id'', PInt (FavoritePerson_person_id self))]"

definition FavoriteVehicle_serialize :: "FavoriteVehicle \<Rightarrow> pydict" where
  "FavoriteVehicle_serialize self =
    [(''user_id'', PInt (FavoriteVehicle_user_id self)),
     (''vehicle_id'', PInt (FavoriteVehicle_vehicle_id self))]"

section \<open>The relational store\<close>

text \<open>
  The seven tables, named by \<open>__tablename__\<close>: each is the list of its rows.
\<close>

record 'dt Store =
  users :: "'dt User_row list"
  planets :: "Planet_row list"
  people :: "Person_row list"
  vehicles :: "Vehicle_row list"
  favorite_planets :: "FavoritePlanet list"
  favorite_people :: "FavoritePerson list"
  favorite_vehicles :: "FavoriteVehicle list"

definition empty_Store :: "'dt Store" where
  "empty_Store =
     \<lparr>users = [], planets = [], people = [], vehicles = [],
      favorite_planets = [], favorite_people = [], favorite_vehicles = []\<rparr>"

subsection \<open>Loading an object: the relationship attributes\<close>

text \<open>
  Modelled from the spec: the module only declares the relationships
  (\<open>relationship("Person", back_populates="homeworld")\<close> over the foreign key
  \<open>Person.homeworld_id\<close> \<open>\<rightarrow>\<close> \<open>planets.id\<close>, and \<open>favorited_by\<close> over
  \<open>FavoritePlanet.planet_id\<close>); the code that fills them is the mapper's, outside the
  repository. Following the spec (residents are the "People whose homeworld references
  this planet", traversal is the query "find People where homeworld_id = X"), a loaded
  planet has as \<open>residents\<close> the rows of \<open>people\<close> whose \<open>homeworld_id\<close> is its id, and as
  \<open>favorited_by\<close> the rows of \<open>favorite_planets\<close> whose \<open>planet_id\<close> is its id.
\<close>

definition load_Planet :: "'dt Store \<Rightarrow> Planet_row \<Rightarrow> Planet" where
  "load_Planet db row =
     Planet_row.extend row
       (Planet.fields
          (filter (\<lambda>fav. FavoritePlanet_planet_id fav = Planet_id row) (favorite_planets db))
          (filter (\<lambda>person. Person_homeworld_id person = Some (Planet_id row)) (people db)))"

subsection \<open>Constraint violations\<close>

text \<open>
  Modelled from the spec: the store reports two kinds of integrity violation, a unique
  constraint (duplicate email, duplicate planet or vehicle name, duplicate favorite
  pair) and a foreign key (a reference to a row that does not exist); both surface as
  the one error kind "constraint violation". The module declares the constraints
  (\<open>primary_key=True\<close>, \<open>unique=True\<close>, \<open>ForeignKey(...)\<close>); raising the error is the
  work of the database engine.
\<close>

datatype constraint = UniqueKey | ForeignKey

datatype error = ConstraintViolation constraint

subsection \<open>Inserting rows\<close>

text \<open>
  Modelled from the spec: an \<open>Integer\<close> primary key \<open>id\<close> is assigned by the store when
  the row is inserted; the value chosen is above every id in the table.
\<close>

definition next_id :: "int list \<Rightarrow> int" where
  "next_id ids = fold max ids 0 + 1"

text \<open>
  The column values given when a user is constructed: \<open>email\<close> and \<open>password\<close> are
  required strings, the names are optional, and \<open>subscription_date\<close> and \<open>is_active\<close>
  may be left unset, for their defaults to apply.
\<close>

record 'dt User_new =
  new_email :: string
  new_password :: string
  new_first_name :: "string option"
  new_last_name :: "string option"
  new_subscription_date :: "'dt option"
  new_is_active :: "bool option"

text \<open>
  Modelled from the spec: the module has no code that persists a user. A user whose
  email is already in the table is refused (\<open>unique=True\<close> on \<open>email\<close>); otherwise the
  row is appended with a new id, with \<open>subscription_date\<close> set to the given timestamp
  or else to the server's clock \<open>now\<close> (\<open>server_default=func.now()\<close>), and with
  \<open>is_active\<close> defaulting to true.
\<close>

definition insert_User :: "'dt \<Rightarrow> 'dt User_new \<Rightarrow> 'dt Store \<Rightarrow> error + 'dt Store" where
  "insert_User now new db =
     (if new_email new \<in> set (map User_email (users db))
      then Inl (ConstraintViolation UniqueKey)
      else Inr (db\<lparr>users := users db @
        [\<lparr>User_id = next_id (map User_id (users db)),
          User_email = new_email new,
          User_password = new_password new,
          User_first_name = new_first_name new,
          User_last_name = new_last_name new,
          User_subscription_date =
            Some (case new_subscription_date new of None \<Rightarrow> now | Some d \<Rightarrow> d),
          User_is_active = (case new_is_active new of None \<Rightarrow> True | Some b \<Rightarrow> b)\<rparr>]\<rparr>))"

text \<open>
  Modelled from the spec: inserting a planet, whose \<open>name\<close> is unique. The \<open>id\<close> of the
  given row is replaced by the one the store assigns.
\<close>

definition insert_Planet :: "Planet_row \<Rightarrow> 'dt Store \<Rightarrow> error + 'dt Store" where
  "insert_Planet row db =
     (if Planet_name row \<in> set (map Planet_name (planets db))
      then Inl (ConstraintViolation UniqueKey)
      else Inr (db\<lparr>planets := planets db @
        [row\<lparr>Planet_id := next_id (map Planet_id (planets db))\<rparr>]\<rparr>))"

text \<open>
  Modelled from the spec: inserting a person. The name is not unique; a \<open>homeworld_id\<close>
  that is present must be the id of a planet in the store.
\<close>

definition insert_Person :: "Person_row \<Rightarrow> 'dt Store \<Rightarrow> error + 'dt Store" where
  "insert_Person row db =
     (case Person_homeworld_id row of
        None \<Rightarrow> Inr (db\<lparr>people := people db @
          [row\<lparr>Person_id := next_id (map Person_id (people db))\<rparr>]\<rparr>)
      | Some pid \<Rightarrow>
          if pid \<in> set (map Planet_id (planets db))
          then Inr (db\<lparr>people := people db @
            [row\<lparr>Person_id := next_id (map Person_id (people db))\<rparr>]\<rparr>)
          else Inl (ConstraintViolation ForeignKey))"

text \<open>Modelled from the spec: inserting a vehicle, whose \<open>name\<close> is unique.\<close>

definition insert_Vehicle :: "Vehicle_row \<Rightarrow> 'dt Store \<Rightarrow> error + 'dt Store" where
  "insert_Vehicle row db =
     (if Vehicle_name row \<in> set (map Vehicle_name (vehicles db))
      then Inl (ConstraintViolation UniqueKey)
      else Inr (db\<lparr>vehicles := vehicles db @
        [row\<lparr>Vehicle_id := next_id (map Vehicle_id (vehicles db))\<rparr>]\<rparr>))"

text \<open>The composite primary keys of the three favorite tables, row by row.\<close>

definition favorite_planet_keys :: "'dt Store \<Rightarrow> (int \<times> int) list" where
  "favorite_planet_keys db =
     map (\<lambda>fav. (FavoritePlanet_user_id fav, FavoritePlanet_planet_id fav)) (favorite_planets db)"

definition favorite_person_keys :: "'dt Store \<Rightarrow> (int \<times> int) list" where
  "favorite_person_keys db =
     map (\<lambda>fav. (FavoritePerson_user_id fav, FavoritePerson_person_id fav)) (favorite_people db)"

definition favorite_vehicle_keys :: "'dt Store \<Rightarrow> (int \<times> int) list" where
  "favorite_vehicle_keys db =
     map (\<lambda>fav. (FavoriteVehicle_user_id fav, FavoriteVehicle_vehicle_id fav)) (favorite_vehicles db)"

text \<open>
  Modelled from the spec: inserting a favorite row. Both columns are \<open>primary_key=True\<close>,
  so a pair already in the table is a duplicate key; both are foreign keys, so the user
  and the planet must exist.
\<close>

definition insert_FavoritePlanet :: "FavoritePlanet \<Rightarrow> 'dt Store \<Rightarrow> error + 'dt Store" where
  "insert_FavoritePlanet fav db =
     (if (FavoritePlanet_user_id fav, FavoritePlanet_planet_id fav) \<in> set (favorite_planet_keys db)
      then Inl (ConstraintViolation UniqueKey)
      else if FavoritePlanet_user_id fav \<in> set (map User_id (users db))
        then if FavoritePlanet_planet_id fav \<in> set (map Planet_id (planets db))
          then Inr (db\<lparr>favorite_planets := favorite_planets db @ [fav]\<rparr>)
          else Inl (ConstraintViolation ForeignKey)
        else Inl (ConstraintViolation ForeignKey))"

text \<open>Modelled from the spec: the same for a favorite person.\<close>

definition insert_FavoritePerson :: "FavoritePerson \<Rightarrow> 'dt Store \<Rightarrow> error + 'dt Store" where
  "insert_FavoritePerson fav db =
     (if (FavoritePerson_user_id fav, FavoritePerson_person_id fav) \<in> set (favorite_person_keys db)
      then Inl (ConstraintViolation UniqueKey)
      else if FavoritePerson_user_id fav \<in> set (map User_id (users db))
        then if FavoritePerson_person_id fav \<in> set (map Person_id (people db))
          then Inr (db\<lparr>favorite_people := favorite_people db @ [fav]\<rparr>)
          else Inl (ConstraintViolation ForeignKey)
        else Inl (ConstraintViolation ForeignKey))"

text \<open>Modelled from the spec: the same for a favorite vehicle.\<close>

definition insert_FavoriteVehicle :: "FavoriteVehicle \<Rightarrow> 'dt Store \<Rightarrow> error + 'dt Store" where
  "insert_FavoriteVehicle fav db =
     (if (FavoriteVehicle_user_id fav, FavoriteVehicle_vehicle_id fav) \<in> set (favorite_vehicle_keys db)
      then Inl (ConstraintViolation UniqueKey)
      else if FavoriteVehicle_user_id fav \<in> set (map User_id (users db))
        then if FavoriteVehicle_vehicle_id fav \<in> set (map Vehicle_id (vehicles db))
          then Inr (db\<lparr>favorite_vehicles := favorite_vehicles db @ [fav]\<rparr>)
          else Inl (ConstraintViolation ForeignKey)
        else Inl (ConstraintViolation ForeignKey))"

subsection \<open>Deleting rows\<close>

text \<open>
  Modelled from the spec: the module has no code that deletes; it declares the three
  collections of \<open>User\<close> with \<open>cascade="all, delete-orphan"\<close>. Deleting a user removes
  the user's row and every row of the three favorite tables whose \<open>user_id\<close> is that
  user's id.
\<close>

definition delete_User :: "int \<Rightarrow> 'dt Store \<Rightarrow> 'dt Store" where
  "delete_User uid db =
     db\<lparr>users := filter (\<lambda>u. User_id u \<noteq> uid) (users db),
        favorite_planets := filter (\<lambda>fav. FavoritePlanet_user_id fav \<noteq> uid) (favorite_planets db),
        favorite_people := filter (\<lambda>fav. FavoritePerson_user_id fav \<noteq> uid) (favorite_people db),
        favorite_vehicles := filter (\<lambda>fav. FavoriteVehicle_user_id fav \<noteq> uid) (favorite_vehicles db)\<rparr>"

text \<open>
  Modelled from the spec: deleting a planet removes its row and, \<open>favorited_by\<close> being
  declared with \<open>cascade="all, delete-orphan"\<close>, its \<open>favorite_planets\<close> rows. The
  relationship \<open>residents\<close> is declared without a delete cascade: the residents are kept,
  and so that no \<open>homeworld_id\<close> refers to a planet that is gone, the nullable column is
  set to \<open>None\<close> on them.
\<close>

definition delete_Planet :: "int \<Rightarrow> 'dt Store \<Rightarrow> 'dt Store" where
  "delete_Planet pid db =
     db\<lparr>planets := filter (\<lambda>p. Planet_id p \<noteq> pid) (planets db),
        favorite_planets := filter (\<lambda>fav. FavoritePlanet_planet_id fav \<noteq> pid) (favorite_planets db),
        people := map (\<lambda>person. if Person_homeworld_id person = Some pid
                                then person\<lparr>Person_homeworld_id := None\<rparr> else person) (people db)\<rparr>"

text \<open>Modelled from the spec: deleting a person removes its row and its \<open>favorite_people\<close> rows.\<close>

definition delete_Person :: "int \<Rightarrow> 'dt Store \<Rightarrow> 'dt Store" where
  "delete_Person pid db =
     db\<lparr>people := filter (\<lambda>p. Person_id p \<noteq> pid) (people db),
        favorite_people := filter (\<lambda>fav. FavoritePerson_person_id fav \<noteq> pid) (favorite_people db)\<rparr>"

text \<open>Modelled from the spec: deleting a vehicle removes its row and its \<open>favorite_vehicles\<close> rows.\<close>

definition delete_Vehicle :: "int \<Rightarrow> 'dt Store \<Rightarrow> 'dt Store" where
  "delete_Vehicle vid db =
     db\<lparr>vehicles := filter (\<lambda>v. Vehicle_id v \<noteq> vid) (vehicles db),
        favorite_vehicles := filter (\<lambda>fav. FavoriteVehicle_vehicle_id fav \<noteq> vid) (favorite_vehicles db)\<rparr>"

text \<open>Modelled from the spec: deleting one favorite row, named by its key.\<close>

definition delete_FavoritePlanet :: "int \<Rightarrow> int \<Rightarrow> 'dt Store \<Rightarrow> 'dt Store" where
  "delete_FavoritePlanet uid pid db =
     db\<lparr>favorite_planets :=
          filter (\<lambda>fav. (FavoritePlanet_user_id fav, FavoritePlanet_planet_id fav) \<noteq> (uid, pid))
            (favorite_planets db)\<rparr>"

text \<open>Modelled from the spec: the same for a favorite person.\<close>

definition delete_FavoritePerson :: "int \<Rightarrow> int \<Rightarrow> 'dt Store \<Rightarrow> 'dt Store" where
  "delete_FavoritePerson uid pid db =
     db\<lparr>favorite_people :=
          filter (\<lambda>fav. (FavoritePerson_user_id fav, FavoritePerson_person_id fav) \<noteq> (uid, pid))
            (favorite_people db)\<rparr>"

text \<open>Modelled from the spec: the same for a favorite vehicle.\<close>

definition delete_FavoriteVehicle :: "int \<Rightarrow> int \<Rightarrow> 'dt Store \<Rightarrow> 'dt Store" where
  "delete_FavoriteVehicle uid vid db =
     db\<lparr>favorite_vehicles :=
          filter (\<lambda>fav. (FavoriteVehicle_user_id fav, FavoriteVehicle_vehicle_id fav) \<noteq> (uid, vid))
            (favorite_vehicles db)\<rparr>"

subsection \<open>Transactions and reachable states\<close>

text \<open>
  Modelled from the spec: every entity is either absent or present and changes state
  only by an insert or a delete; these are the commands. \<open>InsertUser\<close> carries the
  reading of the server's clock.
\<close>

datatype 'dt command =
    InsertUser 'dt "'dt User_new"
  | InsertPlanet Planet_row
  | InsertPerson Person_row
  | InsertVehicle Vehicle_row
  | InsertFavoritePlanet FavoritePlanet
  | InsertFavoritePerson FavoritePerson
  | InsertFavoriteVehicle FavoriteVehicle
  | DeleteUser int
  | DeletePlanet int
  | DeletePerson int
  | DeleteVehicle int
  | DeleteFavoritePlanet int int
  | DeleteFavoritePerson int int
  | DeleteFavoriteVehicle int int

fun execute :: "'dt command \<Rightarrow> 'dt Store \<Rightarrow> error + 'dt Store" where
  "execute (InsertUser now new) db = insert_User now new db"
| "execute (InsertPlanet row) db = insert_Planet row db"
| "execute (InsertPerson row) db = insert_Person row db"
| "execute (InsertVehicle row) db = insert_Vehicle row db"
| "execute (InsertFavoritePlanet fav) db = insert_FavoritePlanet fav db"
| "execute (InsertFavoritePerson fav) db = insert_FavoritePerson fav db"
| "execute (InsertFavoriteVehicle fav) db = insert_FavoriteVehicle fav db"
| "execute (DeleteUser uid) db = Inr (delete_User uid db)"
| "execute (DeletePlanet pid) db = Inr (delete_Planet pid db)"
| "execute (DeletePerson pid) db = Inr (delete_Person pid db)"
| "execute (DeleteVehicle vid) db = Inr (delete_Vehicle vid db)"
| "execute (DeleteFavoritePlanet uid pid) db = Inr (delete_FavoritePlanet uid pid db)"
| "execute (DeleteFavoritePerson uid pid) db = Inr (delete_FavoritePerson uid pid db)"
| "execute (DeleteFavoriteVehicle uid vid) db = Inr (delete_FavoriteVehicle uid vid db)"

text \<open>
  Modelled from the spec: each create or delete runs in one transaction. A command that
  violates a constraint reports the error and leaves the store as it was.
\<close>

definition commit :: "'dt Store \<Rightarrow> 'dt command \<Rightarrow> error option \<times> 'dt Store" where
  "commit db c = (case execute c db of Inl e \<Rightarrow> (Some e, db) | Inr db' \<Rightarrow> (None, db'))"

text \<open>The states of the store: the empty one, and what any transaction makes of a state.\<close>

inductive reachable :: "'dt Store \<Rightarrow> bool" where
  initial: "reachable empty_Store"
| step: "reachable db \<Longrightarrow> reachable (snd (commit db c))"

definition favorite_keys_distinct :: "'dt Store \<Rightarrow> bool" where
  "favorite_keys_distinct db \<longleftrightarrow>
     distinct (favorite_planet_keys db) \<and> distinct (favorite_person_keys db)
     \<and> distinct (favorite_vehicle_keys db)"

subsection \<open>A small store\<close>

text \<open>
  One user, one planet, one resident of it, and the user's favorite planet and person,
  built by five transactions on the empty store. Timestamps are natural numbers here.
\<close>

definition luke :: "nat User_new" where
  "luke = \<lparr>new_email = ''luke@example.org'', new_password = ''hash1'',
           new_first_name = Some ''Luke'', new_last_name = None,
           new_subscription_date = None, new_is_active = None\<rparr>"

definition leia :: "nat User_new" where
  "leia = \<lparr>new_email = ''leia@example.org'', new_password = ''hash2'',
           new_first_name = Some ''Leia'', new_last_name = Some ''Organa'',
           new_subscription_date = None, new_is_active = Some True\<rparr>"

definition tatooine :: Planet_row where
  "tatooine = \<lparr>Planet_id = 0, Planet_name = ''Tatooine'', Planet_diameter = Some ''10465'',
     Planet_rotation_period = None, Planet_orbital_period = None, Planet_gravity = None,
     Planet_population = None, Planet_climate = Some ''arid'', Planet_terrain = None,
     Planet_surface_water = None\<rparr>"

definition owen :: Person_row where
  "owen = \<lparr>Person_id = 0, Person_name = ''Owen Lars'', Person_height = None, Person_mass = None,
     Person_hair_color = None, Person_skin_color = None, Person_eye_color = None,
     Person_birth_year = None, Person_gender = None, Person_homeworld_id = Some 1\<rparr>"

definition example_commands :: "nat command list" where
  "example_commands =
     [InsertUser 100 luke, InsertPlanet tatooine, InsertPerson owen,
      InsertFavoritePlanet \<lparr>FavoritePlanet_user_id = 1, FavoritePlanet_planet_id = 1\<rparr>,
      InsertFavoritePerson \<lparr>FavoritePerson_user_id = 1, FavoritePerson_person_id = 1\<rparr>]"

definition example_Store :: "nat Store" where
  "example_Store = fold (\<lambda>c db. snd (commit db c)) example_commands empty_Store"

section \<open>Properties of the serializers\<close>

lemma ints_of_vals_map_PInt: "ints_of_vals (map (\<lambda>x. PInt (f x)) xs) = Some (map f xs)"
  by (induction xs) simp_all

text \<open>
  C1. The mapping returned by \<open>User.serialize\<close> has no key \<open>password\<close>, whatever the
  field values and the favorite associations of the user are.
\<close>

theorem User_serialize_no_password:
  "''password'' \<notin> set (map fst (User_serialize isoformat self))
   \<and> map_of (User_serialize isoformat self) ''password'' = None"
  by (simp add: User_serialize_def)

text \<open>
  C7. \<open>User.serialize\<close> returns exactly the nine keys \<open>id\<close>, \<open>email\<close>, \<open>first_name\<close>,
  \<open>last_name\<close>, \<open>subscription_date\<close>, \<open>is_active\<close>, \<open>favorite_planet_ids\<close>,
  \<open>favorite_person_ids\<close>, \<open>favorite_vehicle_ids\<close>; the entry \<open>subscription_date\<close> is
  \<open>None\<close> or the string that \<open>isoformat\<close> gives for the stored timestamp; each of the
  three \<open>favorite_*\<close> entries is a list of integers, the referenced ids of the user's
  favorite associations.
\<close>

theorem User_serialize_shape:
  "map fst (User_serialize isoformat self) =
     [''id'', ''email'', ''first_name'', ''last_name'', ''subscription_date'', ''is_active'',
      ''favorite_planet_ids'', ''favorite_person_ids'', ''favorite_vehicle_ids'']
   \<and> map_of (User_serialize isoformat self) ''subscription_date'' =
       Some (case User_subscription_date self of None \<Rightarrow> PNone | Some d \<Rightarrow> PStr (isoformat d))
   \<and> Option.bind (map_of (User_serialize isoformat self) ''favorite_planet_ids'') ints_of =
       Some (map FavoritePlanet_planet_id (User_favorite_planets self))
   \<and> Option.bind (map_of (User_serialize isoformat self) ''favorite_person_ids'') ints_of =
       Some (map FavoritePerson_person_id (User_favorite_people self))
   \<and> Option.bind (map_of (User_serialize isoformat self) ''favorite_vehicle_ids'') ints_of =
       Some (map FavoriteVehicle_vehicle_id (User_favorite_vehicles self))"
  by (simp add: User_serialize_def ints_of_vals_map_PInt split: option.split)

text \<open>
  C8. \<open>Person.serialize\<close> returns the ten column keys of the person; the entry
  \<open>homeworld_id\<close> is the column value (an integer or \<open>None\<close>); no entry is a nested
  mapping; and the result does not depend on the related \<open>homeworld\<close> object (nor on
  \<open>favorited_by\<close>): replacing the relationship attributes leaves it as it is.
\<close>

theorem Person_serialize_flat:
  "map fst (Person_serialize self) =
     [''id'', ''name'', ''height'', ''mass'', ''hair_color'', ''skin_color'', ''eye_color'',
      ''birth_year'', ''gender'', ''homeworld_id'']
   \<and> map_of (Person_serialize self) ''id'' = Some (PInt (Person_id self))
   \<and> map_of (Person_serialize self) ''name'' = Some (PStr (Person_name self))
   \<and> map_of (Person_serialize self) ''height'' = Some (str_or_none (Person_height self))
   \<and> map_of (Person_serialize self) ''mass'' = Some (str_or_none (Person_mass self))
   \<and> map_of (Person_serialize self) ''hair_color'' = Some (str_or_none (Person_hair_color self))
   \<and> map_of (Person_serialize self) ''skin_color'' = Some (str_or_none (Person_skin_color self))
   \<and> map_of (Person_serialize self) ''eye_color'' = Some (str_or_none (Person_eye_color self))
   \<and> map_of (Person_serialize self) ''birth_year'' = Some (str_or_none (Person_birth_year self))
   \<and> map_of (Person_serialize self) ''gender'' = Some (str_or_none (Person_gender self))
   \<and> map_of (Person_serialize self) ''homeworld_id'' =
       Some (case Person_homeworld_id self of None \<Rightarrow> PNone | Some i \<Rightarrow> PInt i)
   \<and> filter is_dict (map snd (Person_serialize self)) = []
   \<and> Person_serialize (self\<lparr>Person_homeworld := h, Person_favorited_by := fs\<rparr>) = Person_serialize self"
  by (simp add: Person_serialize_def str_or_none_def int_or_none_def split: option.split)

text \<open>
  C9. For a user whose \<open>subscription_date\<close> is \<open>None\<close>, \<open>User.serialize\<close> returns the
  full mapping, with \<open>None\<close> under \<open>subscription_date\<close>: the conditional expression keeps
  \<open>isoformat\<close> from being called on \<open>None\<close>.
\<close>

theorem User_serialize_missing_date:
  "map_of (User_serialize isoformat (self\<lparr>User_subscription_date := None\<rparr>)) ''subscription_date''
     = Some PNone
   \<and> length (User_serialize isoformat (self\<lparr>User_subscription_date := None\<rparr>)) = 9"
  by (simp add: User_serialize_def)

text \<open>
  C10. The list under \<open>favorite_planet_ids\<close> is the user's \<open>favorite_planets\<close> collection
  mapped row by row to \<open>planet_id\<close>: the same length, the same order, nothing dropped
  and nothing merged. Likewise \<open>favorite_person_ids\<close> for \<open>favorite_people\<close> and
  \<open>favorite_vehicle_ids\<close> for \<open>favorite_vehicles\<close>.
\<close>

theorem User_serialize_favorites_in_order:
  "(\<exists>vs. map_of (User_serialize isoformat self) ''favorite_planet_ids'' = Some (PList vs)
      \<and> length vs = length (User_favorite_planets self)
      \<and> vs = map (\<lambda>fav. PInt (FavoritePlanet_planet_id fav)) (User_favorite_planets self))
   \<and> (\<exists>vs. map_of (User_serialize isoformat self) ''favorite_person_ids'' = Some (PList vs)
      \<and> length vs = length (User_favorite_people self)
      \<and> vs = map (\<lambda>fav. PInt (FavoritePerson_person_id fav)) (User_favorite_people self))
   \<and> (\<exists>vs. map_of (User_serialize isoformat self) ''favorite_vehicle_ids'' = Some (PList vs)
      \<and> length vs = length (User_favorite_vehicles self)
      \<and> vs = map (\<lambda>fav. PInt (FavoriteVehicle_vehicle_id fav)) (User_favorite_vehicles self))"
  by (simp add: User_serialize_def)

section \<open>Properties of the store\<close>

lemma Planet_residents_load [simp]:
  "Planet_residents (load_Planet db row) =
     filter (\<lambda>person. Person_homeworld_id person = Some (Planet_id row)) (people db)"
  by (simp add: load_Planet_def Planet_row.defs Planet.defs)

lemma Planet_id_load [simp]: "Planet_id (load_Planet db row) = Planet_id row"
  by (simp add: load_Planet_def Planet_row.defs Planet.defs)

text \<open>
  C2. For a planet loaded from the store, the entry \<open>resident_ids\<close> of
  \<open>Planet.serialize\<close> is a list of integers whose set is the set of ids of the rows of
  \<open>people\<close> whose \<open>homeworld_id\<close> equals the planet's id.
\<close>

theorem Planet_serialize_resident_ids:
  "\<exists>ids. Option.bind (map_of (Planet_serialize (load_Planet db row)) ''resident_ids'') ints_of
            = Some ids
     \<and> set ids =
         Person_id ` {person \<in> set (people db). Person_homeworld_id person = Some (Planet_id row)}"
  by (simp add: Planet_serialize_def ints_of_vals_map_PInt)

lemmas store_ops =
  insert_User_def insert_Planet_def insert_Person_def insert_Vehicle_def
  insert_FavoritePlanet_def insert_FavoritePerson_def insert_FavoriteVehicle_def
  delete_User_def delete_Planet_def delete_Person_def delete_Vehicle_def
  delete_FavoritePlanet_def delete_FavoritePerson_def delete_FavoriteVehicle_def

lemmas favorite_keys = favorite_planet_keys_def favorite_person_keys_def favorite_vehicle_keys_def

lemma execute_keeps_distinct:
  "favorite_keys_distinct db \<Longrightarrow> execute c db = Inr db' \<Longrightarrow> favorite_keys_distinct db'"
  by (cases c)
     (auto simp: favorite_keys_distinct_def favorite_keys store_ops distinct_map_filter
           split: if_splits option.splits)

lemma commit_keeps_distinct:
  "favorite_keys_distinct db \<Longrightarrow> favorite_keys_distinct (snd (commit db c))"
  by (auto simp: commit_def split: sum.splits dest: execute_keeps_distinct)

lemma reachable_distinct: "reachable db \<Longrightarrow> favorite_keys_distinct db"
proof (induction rule: reachable.induct)
  case initial
  show ?case by (simp add: favorite_keys_distinct_def favorite_keys empty_Store_def)
next
  case (step db c)
  then show ?case by (simp add: commit_keeps_distinct)
qed

lemma reachable_fold: "reachable db \<Longrightarrow> reachable (fold (\<lambda>c db. snd (commit db c)) cs db)"
  by (induction cs arbitrary: db) (simp_all add: reachable.step)

lemma example_Store_eq:
  "example_Store =
     \<lparr>users = [\<lparr>User_id = 1, User_email = ''luke@example.org'', User_password = ''hash1'',
                User_first_name = Some ''Luke'', User_last_name = None,
                User_subscription_date = Some 100, User_is_active = True\<rparr>],
      planets = [tatooine\<lparr>Planet_id := 1\<rparr>],
      people = [owen\<lparr>Person_id := 1\<rparr>],
      vehicles = [],
      favorite_planets = [\<lparr>FavoritePlanet_user_id = 1, FavoritePlanet_planet_id = 1\<rparr>],
      favorite_people = [\<lparr>FavoritePerson_user_id = 1, FavoritePerson_person_id = 1\<rparr>],
      favorite_vehicles = []\<rparr>"
  by (simp add: example_Store_def example_commands_def commit_def empty_Store_def store_ops
        favorite_keys next_id_def luke_def tatooine_def owen_def)

text \<open>
  C3. In every state of the store, deleting a user succeeds, and afterwards no row of
  \<open>favorite_planets\<close>, \<open>favorite_people\<close> or \<open>favorite_vehicles\<close> has that user's id as
  its \<open>user_id\<close> (nor is the user's own row left).
\<close>

theorem delete_User_cascades:
  "\<exists>db'. commit db (DeleteUser uid) = (None, db')
     \<and> filter (\<lambda>u. User_id u = uid) (users db') = []
     \<and> filter (\<lambda>fav. FavoritePlanet_user_id fav = uid) (favorite_planets db') = []
     \<and> filter (\<lambda>fav. FavoritePerson_user_id fav = uid) (favorite_people db') = []
     \<and> filter (\<lambda>fav. FavoriteVehicle_user_id fav = uid) (favorite_vehicles db') = []"
  by (simp add: commit_def delete_User_def filter_empty_conv)

theorem delete_User_cascades_witness:
  "filter (\<lambda>fav. FavoritePlanet_user_id fav = 1) (favorite_planets example_Store) \<noteq> []
   \<and> filter (\<lambda>fav. FavoritePerson_user_id fav = 1) (favorite_people example_Store) \<noteq> []
   \<and> (\<exists>db'. commit example_Store (DeleteUser 1) = (None, db')
     \<and> filter (\<lambda>u. User_id u = 1) (users db') = []
     \<and> filter (\<lambda>fav. FavoritePlanet_user_id fav = 1) (favorite_planets db') = []
     \<and> filter (\<lambda>fav. FavoritePerson_user_id fav = 1) (favorite_people db') = []
     \<and> filter (\<lambda>fav. FavoriteVehicle_user_id fav = 1) (favorite_vehicles db') = [])"
  using delete_User_cascades [of example_Store 1] by (simp add: example_Store_eq)

text \<open>
  C5. In every state of the store, deleting a planet succeeds; afterwards no row of
  \<open>favorite_planets\<close> has that planet's id as its \<open>planet_id\<close>, and the table \<open>people\<close>
  has the same rows as before, residents of the deleted planet included: the same ids
  in the same order, every column other than \<open>homeworld_id\<close> as it was.
\<close>

theorem delete_Planet_keeps_people:
  "\<exists>db'. commit db (DeletePlanet pid) = (None, db')
     \<and> filter (\<lambda>fav. FavoritePlanet_planet_id fav = pid) (favorite_planets db') = []
     \<and> map Person_id (people db') = map Person_id (people db)
     \<and> map (\<lambda>person. person\<lparr>Person_homeworld_id := None\<rparr>) (people db')
         = map (\<lambda>person. person\<lparr>Person_homeworld_id := None\<rparr>) (people db)"
  by (simp add: commit_def delete_Planet_def filter_empty_conv)

theorem delete_Planet_keeps_people_witness:
  "filter (\<lambda>person. Person_homeworld_id person = Some 1) (people example_Store) \<noteq> []
   \<and> filter (\<lambda>fav. FavoritePlanet_planet_id fav = 1) (favorite_planets example_Store) \<noteq> []
   \<and> (\<exists>db'. commit example_Store (DeletePlanet 1) = (None, db')
     \<and> filter (\<lambda>fav. FavoritePlanet_planet_id fav = 1) (favorite_planets db') = []
     \<and> map Person_id (people db') = map Person_id (people example_Store)
     \<and> map (\<lambda>person. person\<lparr>Person_homeworld_id := None\<rparr>) (people db')
         = map (\<lambda>person. person\<lparr>Person_homeworld_id := None\<rparr>) (people example_Store))"
proof -
  have residents: "filter (\<lambda>person. Person_homeworld_id person = Some 1) (people example_Store) \<noteq> []"
    by (simp add: example_Store_eq owen_def)
  have favorites: "filter (\<lambda>fav. FavoritePlanet_planet_id fav = 1) (favorite_planets example_Store) \<noteq> []"
    by (simp add: example_Store_eq)
  show ?thesis
    using residents favorites delete_Planet_keeps_people [of example_Store 1] by blast
qed

text \<open>
  C4. Inserting into \<open>favorite_planets\<close> a pair \<open>(user_id, planet_id)\<close> that is already
  there fails with a constraint violation and leaves the store as it was; and in every
  reachable state, no pair occurs twice in any of the three favorite tables.
\<close>

theorem favorite_pair_unique:
  "((FavoritePlanet_user_id fav, FavoritePlanet_planet_id fav) \<in> set (favorite_planet_keys db)
      \<longrightarrow> commit db (InsertFavoritePlanet fav) = (Some (ConstraintViolation UniqueKey), db))
   \<and> (reachable db
      \<longrightarrow> distinct (favorite_planet_keys db) \<and> distinct (favorite_person_keys db)
          \<and> distinct (favorite_vehicle_keys db))"
proof
  show "(FavoritePlanet_user_id fav, FavoritePlanet_planet_id fav) \<in> set (favorite_planet_keys db)
      \<longrightarrow> commit db (InsertFavoritePlanet fav) = (Some (ConstraintViolation UniqueKey), db)"
    by (simp add: commit_def insert_FavoritePlanet_def)
next
  show "reachable db
      \<longrightarrow> distinct (favorite_planet_keys db) \<and> distinct (favorite_person_keys db)
          \<and> distinct (favorite_vehicle_keys db)"
    using reachable_distinct [of db] by (simp add: favorite_keys_distinct_def)
qed

theorem favorite_pair_unique_witness:
  "(1, 1) \<in> set (favorite_planet_keys example_Store)
   \<and> reachable example_Store
   \<and> commit example_Store
        (InsertFavoritePlanet \<lparr>FavoritePlanet_user_id = 1, FavoritePlanet_planet_id = 1\<rparr>)
       = (Some (ConstraintViolation UniqueKey), example_Store)
   \<and> distinct (favorite_planet_keys example_Store)"
proof -
  have mem: "(1, 1) \<in> set (favorite_planet_keys example_Store)"
    by (simp add: example_Store_eq favorite_planet_keys_def)
  have reach: "reachable example_Store"
    unfolding example_Store_def by (rule reachable_fold) (rule reachable.initial)
  show ?thesis
    using mem reach
      favorite_pair_unique [of "\<lparr>FavoritePlanet_user_id = 1, FavoritePlanet_planet_id = 1\<rparr>" example_Store]
    by simp
qed

text \<open>
  C6. Creating a user whose email is that of a user already stored fails with a
  constraint violation and leaves the store as it was; creating a user with an email
  not in use succeeds, appends one row carrying that email, and the row's
  \<open>subscription_date\<close> is not \<open>None\<close>.
\<close>

theorem insert_User_email_unique:
  "(new_email new \<in> set (map User_email (users db))
      \<longrightarrow> commit db (InsertUser now new) = (Some (ConstraintViolation UniqueKey), db))
   \<and> (new_email new \<notin> set (map User_email (users db))
      \<longrightarrow> (\<exists>db' row. commit db (InsertUser now new) = (None, db')
            \<and> users db' = users db @ [row]
            \<and> User_email row = new_email new
            \<and> User_subscription_date row \<noteq> None))"
  by (simp add: commit_def insert_User_def)

theorem insert_User_email_unique_witness:
  "new_email luke \<in> set (map User_email (users example_Store))
   \<and> commit example_Store (InsertUser 200 luke) = (Some (ConstraintViolation UniqueKey), example_Store)
   \<and> new_email leia \<notin> set (map User_email (users example_Store))
   \<and> (\<exists>db' row. commit example_Store (InsertUser 200 leia) = (None, db')
        \<and> users db' = users example_Store @ [row]
        \<and> User_email row = new_email leia
        \<and> User_subscription_date row \<noteq> None)"
proof -
  have dup: "new_email luke \<in> set (map User_email (users example_Store))"
    by (simp add: example_Store_eq luke_def)
  have fresh: "new_email leia \<notin> set (map User_email (users example_Store))"
    by (simp add: example_Store_eq leia_def)
  show ?thesis
    using dup fresh insert_User_email_unique [of luke example_Store 200]
      insert_User_email_unique [of leia example_Store 200]
    by blast
qed

end
